theory Spec2Isabelle
  imports Complex_Main "HOL-Library.Log_Nat"
begin

section \<open>Mental arithmetic game: question generator and presentation sequencer\<close>

text \<open>
  A shallow embedding of \<^verbatim>\<open>src/components/mental-arithmetic-game.tsx\<close>.

  Conventions of the model:
  \<^item> JavaScript numbers that hold counts, operands and totals are \<^typ>\<open>int\<close>: every value
    the generator computes is an integer far below \<open>2^53\<close>, where doubles are exact.
  \<^item> \<^verbatim>\<open>Math.random()\<close> is the only source of non-determinism. It is a parameter
    \<open>rnd :: nat \<Rightarrow> rat\<close>: \<open>rnd k\<close> is the value returned by the \<open>k\<close>-th call, a double
    written as the rational number it denotes. Every function that draws random numbers
    takes the number of calls made so far and returns it updated. The contract of
    \<^verbatim>\<open>Math.random\<close> (a double in \<open>[0, 1)\<close>) is the predicate \<open>unitInterval\<close>.
  \<^item> The product \<^verbatim>\<open>Math.random() * n\<close> is the exact product rounded to the nearest double,
    ties to even, as IEEE 754 multiplication does.
  \<^item> The field \<^verbatim>\<open>operations\<close> of \<^verbatim>\<open>GameSettings\<close> is called \<open>operationMode\<close> and the
    state variable \<^verbatim>\<open>answer\<close> of the component is called \<open>currentAnswer\<close>, because
    \<^verbatim>\<open>Question\<close> has fields of the same names. The keys \<^verbatim>\<open>'1digit'\<close>, \<^verbatim>\<open>'2digit'\<close>,
    \<^verbatim>\<open>'3digit'\<close> are \<open>digit1\<close>, \<open>digit2\<close>, \<open>digit3\<close>.
\<close>

subsection \<open>Type definitions\<close>

record DigitTypes =
  digit1 :: bool
  digit2 :: bool
  digit3 :: bool

datatype Operations = Addition | Both

datatype ThemeName = Default | Ocean | Forest | Sunset | Lavender

record GameSettings =
  digitTypes :: DigitTypes
  operationMode :: Operations
  numQuestions :: int
  numbersPerQuestion :: int
  level :: int
  theme :: ThemeName

record Question =
  numbers :: "int list"
  operations :: "string list"
  answer :: int

datatype DigitType = D1digit | D2digit | D3digit

text \<open>The settings \<^verbatim>\<open>loadSettings\<close> returns when nothing is stored.\<close>

definition defaultSettings :: GameSettings where
  "defaultSettings =
     \<lparr> digitTypes = \<lparr> digit1 = True, digit2 = True, digit3 = False \<rparr>,
       operationMode = Both, numQuestions = 10, numbersPerQuestion = 10,
       level = 1, theme = Default \<rparr>"

subsection \<open>Doubles and the random source\<close>

text \<open>
  A finite double is \<open>m * 2^e\<close> for integers \<open>m\<close> and \<open>e\<close> with \<open>|m| < 2^53\<close> and
  \<open>-1074 \<le> e \<le> 971\<close>.
\<close>

definition isDouble :: "rat \<Rightarrow> bool" where
  "isDouble x = (\<exists>m e. x = of_int m * 2 powi e \<and> \<bar>m\<bar> < 2 ^ 53 \<and> - 1074 \<le> e \<and> e \<le> 971)"

definition unitInterval :: "(nat \<Rightarrow> rat) \<Rightarrow> bool" where
  "unitInterval rnd = (\<forall>k. isDouble (rnd k) \<and> 0 \<le> rnd k \<and> rnd k < 1)"

text \<open>Rounding to the nearest integer, a tie to the even one.\<close>

definition roundHalfEven :: "rat \<Rightarrow> int" where
  "roundHalfEven x =
     (let f = \<lfloor>x\<rfloor>; d = x - of_int f
      in if d < 1 / 2 then f
         else if 1 / 2 < d then f + 1
         else if even f then f else f + 1)"

text \<open>The binary exponent of a positive number \<open>x\<close>: the \<open>e\<close> with \<open>2^e \<le> x < 2^(e+1)\<close>.\<close>

definition exponentOf :: "rat \<Rightarrow> int" where
  "exponentOf x =
     (let (p, q) = quotient_of x; d = bitlen p - bitlen q
      in if 2 powi d \<le> x then d else d - 1)"

text \<open>
  The double nearest to a rational number: the number is rounded to a multiple of its
  unit in the last place, \<open>2^(e - 52)\<close> for a number of exponent \<open>e\<close> and \<open>2^(-1074)\<close> in the
  subnormal range. Overflow to \<^verbatim>\<open>Infinity\<close> (a magnitude of \<open>2^1024\<close> or more) is not
  modelled.
\<close>

definition roundToDouble :: "rat \<Rightarrow> rat" where
  "roundToDouble x =
     (if x = 0 then 0
      else (let q = max (exponentOf \<bar>x\<bar>) (- 1022) - 52
            in sgn x * of_int (roundHalfEven (\<bar>x\<bar> / 2 powi q)) * 2 powi q))"

text \<open>\<^verbatim>\<open>Math.floor(Math.random() * n)\<close>, for the outcome \<open>r\<close> of the call.\<close>

definition randomBelow :: "rat \<Rightarrow> int \<Rightarrow> int" where
  "randomBelow r n = \<lfloor>roundToDouble (r * of_int n)\<rfloor>"

text \<open>Array indexing: an index outside the array reads \<^verbatim>\<open>undefined\<close>, here \<open>None\<close>.\<close>

definition at_index :: "'a list \<Rightarrow> int \<Rightarrow> 'a option" where
  "at_index xs i = (if 0 \<le> i \<and> i < int (length xs) then Some (xs ! nat i) else None)"

subsection \<open>generateNumber\<close>

definition enabledTypes :: "GameSettings \<Rightarrow> DigitType list" where
  "enabledTypes settings =
     (let pushed = (if digit1 (digitTypes settings) then [D1digit] else []) @
                   (if digit2 (digitTypes settings) then [D2digit] else []) @
                   (if digit3 (digitTypes settings) then [D3digit] else [])
      in if length pushed = 0 then pushed @ [D1digit] else pushed)"

definition generateNumber :: "GameSettings \<Rightarrow> (nat \<Rightarrow> rat) \<Rightarrow> nat \<Rightarrow> int \<times> nat" where
  "generateNumber settings rnd k =
     (let randomType = at_index (enabledTypes settings)
                         (randomBelow (rnd k) (int (length (enabledTypes settings))))
      in if randomType = Some D1digit then (randomBelow (rnd (k + 1)) 9 + 1, k + 2)
         else if randomType = Some D2digit then (randomBelow (rnd (k + 1)) 90 + 10, k + 2)
         else (randomBelow (rnd (k + 1)) 900 + 100, k + 2))"

subsection \<open>generateQuestion\<close>

text \<open>
  The body of the \<^verbatim>\<open>for\<close> loop is split into the three parts the source has: the choice
  of the operator, the subtraction guard, and the update of the lists and of the total.
\<close>

definition chooseOp :: "GameSettings \<Rightarrow> (nat \<Rightarrow> rat) \<Rightarrow> int \<Rightarrow> int \<Rightarrow> nat \<Rightarrow> string \<times> nat" where
  "chooseOp settings rnd runningTotal nextNumber k =
     (if operationMode settings = Addition then (''+'', k)
      else if runningTotal > nextNumber
           then (if rnd k < 1 / 2 then ''+'' else ''-'', k + 1)
           else (''+'', k))"

definition guardFires :: "string \<Rightarrow> int \<Rightarrow> int \<Rightarrow> bool" where
  "guardFires op runningTotal nextNumber = (op = ''-'' \<and> runningTotal - nextNumber < 0)"

definition repair :: "(nat \<Rightarrow> rat) \<Rightarrow> string \<Rightarrow> int \<Rightarrow> int \<Rightarrow> nat \<Rightarrow> int \<times> string \<times> nat" where
  "repair rnd op runningTotal nextNumber k =
     (if guardFires op runningTotal nextNumber then
        (if runningTotal > 1
         then (randomBelow (rnd k) (runningTotal - 1) + 1, op, k + 1)
         else (nextNumber, ''+'', k))
      else (nextNumber, op, k))"

record GenState =
  g_numbers :: "int list"
  g_operations :: "string list"
  runningTotal :: int
  calls :: nat

definition questionStep :: "GameSettings \<Rightarrow> (nat \<Rightarrow> rat) \<Rightarrow> GenState \<Rightarrow> GenState" where
  "questionStep settings rnd st =
     (let (nextNumber, k1) = generateNumber settings rnd (calls st);
          (op, k2) = chooseOp settings rnd (runningTotal st) nextNumber k1;
          (nextNumber', op', k3) = repair rnd op (runningTotal st) nextNumber k2
      in \<lparr> g_numbers = g_numbers st @ [nextNumber'],
           g_operations = g_operations st @ [op'],
           runningTotal = (if op' = ''+'' then runningTotal st + nextNumber'
                           else runningTotal st - nextNumber'),
           calls = k3 \<rparr>)"

function questionLoop :: "GameSettings \<Rightarrow> (nat \<Rightarrow> rat) \<Rightarrow> int \<Rightarrow> GenState \<Rightarrow> GenState" where
  "questionLoop settings rnd i st =
     (if i < numbersPerQuestion settings
      then questionLoop settings rnd (i + 1) (questionStep settings rnd st)
      else st)"
  by pat_completeness auto
termination
  by (relation "measure (\<lambda>(settings, rnd, i, st). nat (numbersPerQuestion settings - i))") auto

definition generateQuestion :: "GameSettings \<Rightarrow> (nat \<Rightarrow> rat) \<Rightarrow> nat \<Rightarrow> Question \<times> nat" where
  "generateQuestion settings rnd k =
     (let (first, k1) = generateNumber settings rnd k;
          st = questionLoop settings rnd 1
                 \<lparr> g_numbers = [first], g_operations = [], runningTotal = first, calls = k1 \<rparr>
      in (\<lparr> numbers = g_numbers st, operations = g_operations st, answer = runningTotal st \<rparr>,
          calls st))"

text \<open>The loop of \<^verbatim>\<open>startGame\<close> that fills \<^verbatim>\<open>questions\<close>.\<close>

function batchLoop :: "GameSettings \<Rightarrow> (nat \<Rightarrow> rat) \<Rightarrow> int \<Rightarrow> Question list \<times> nat \<Rightarrow> Question list \<times> nat" where
  "batchLoop settings rnd i (questions, k) =
     (if i < numQuestions settings
      then (let (q, k') = generateQuestion settings rnd k
            in batchLoop settings rnd (i + 1) (questions @ [q], k'))
      else (questions, k))"
  by pat_completeness auto
termination
  by (relation "measure (\<lambda>(settings, rnd, i, acc). nat (numQuestions settings - i))") auto

declare questionLoop.simps [simp del]
declare batchLoop.simps [simp del]

subsection \<open>Component state\<close>

datatype GameState = Setup | Playing | Paused | Results

record Game =
  gameState :: GameState
  nextQuestionNumber :: int
  currentQuestion :: int
  currentNumberIndex :: int
  currentNumbers :: "int list"
  currentOperations :: "string list"
  showingAnswer :: bool
  calculatingAnswer :: bool
  showingGetReady :: bool
  flashingBetweenNumbers :: bool
  currentAnswer :: int
  allQuestions :: "Question list"
  displayNumber :: string
  isPaused :: bool

text \<open>The initial values of the \<^verbatim>\<open>useState\<close> declarations.\<close>

definition initialGame :: Game where
  "initialGame =
     \<lparr> gameState = Setup, nextQuestionNumber = 1, currentQuestion = 0, currentNumberIndex = 0,
       currentNumbers = [], currentOperations = [], showingAnswer = False,
       calculatingAnswer = False, showingGetReady = False, flashingBetweenNumbers = False,
       currentAnswer = 0, allQuestions = [], displayNumber = [], isPaused = False \<rparr>"

text \<open>\<^verbatim>\<open>toString()\<close> of an integer: its decimal digits, after a minus sign when negative.\<close>

function showNat :: "nat \<Rightarrow> string" where
  "showNat n =
     (if n < 10 then [''0123456789'' ! n]
      else showNat (n div 10) @ [''0123456789'' ! (n mod 10)])"
  by pat_completeness auto
termination
  by (relation "measure (\<lambda>n. n)") auto

declare showNat.simps [simp del]

definition toString :: "int \<Rightarrow> string" where
  "toString i = (if i < 0 then CHR ''-'' # showNat (nat (- i)) else showNat (nat i))"

subsection \<open>Sounds\<close>

text \<open>
  \<^verbatim>\<open>playSound\<close> plays the first note of a sound at once and schedules the later notes
  with \<^verbatim>\<open>setTimeout\<close>. A scheduled note is a closure that plays a pitch for a duration on
  the synthesiser and touches no state of the component; the model keeps the pitch and
  the duration. When audio is not available the error is caught and nothing is
  scheduled. The notes played at once, and the sequence of \<^verbatim>\<open>calculating\<close> that runs on
  the transport of the audio library, are not timers and are left out. \<^verbatim>\<open>playSound\<close> is
  asynchronous and may schedule its notes after the handler that called it has returned;
  the model makes them pending at once.
\<close>

datatype SoundType =
    SndGetReady | SndCalculating | SndAnswerReveal | SndQuestionComplete | SndGameStart
  | SndGameComplete | SndPause | SndResume | SndButtonClick | SndSettingChange

datatype Note = Note string string

fun scheduledNotes :: "SoundType \<Rightarrow> Note list" where
  "scheduledNotes SndGetReady = []"
| "scheduledNotes SndCalculating = []"
| "scheduledNotes SndAnswerReveal = [Note ''E5'' ''0.2'', Note ''G5'' ''0.3'']"
| "scheduledNotes SndQuestionComplete = [Note ''C5'' ''0.3'']"
| "scheduledNotes SndGameStart = [Note ''E4'' ''0.2'', Note ''G4'' ''0.2'', Note ''C5'' ''0.4'']"
| "scheduledNotes SndGameComplete =
     [Note ''E5'' ''0.2'', Note ''G5'' ''0.2'', Note ''C6'' ''0.2'', Note ''E6'' ''0.4'']"
| "scheduledNotes SndPause = []"
| "scheduledNotes SndResume = [Note ''C5'' ''0.3'']"
| "scheduledNotes SndButtonClick = []"
| "scheduledNotes SndSettingChange = []"

definition playSound :: "bool \<Rightarrow> SoundType \<Rightarrow> Note list" where
  "playSound audio sound = (if audio then scheduledNotes sound else [])"

subsection \<open>Timer callbacks\<close>

text \<open>
  A callback passed to \<^verbatim>\<open>setTimeout\<close> is a closure; the model keeps its kind and the
  values it captured when it was created:
  \<^item> \<open>StartGetReady questions\<close>: the timeout of \<^verbatim>\<open>startGame\<close> (1000 ms);
  \<^item> \<open>NextGetReady currentQuestion allQuestions\<close>: the inner timeout of the transition
    between two questions (1000 ms);
  \<^item> \<open>AnswerDwell currentQuestion allQuestions\<close>, \<open>CalculatingDwell answer\<close>,
    \<open>FlashDwell currentNumberIndex currentNumbers\<close> and
    \<open>NumberDwell currentNumberIndex currentNumbers\<close>: the timer of each branch of the game
    logic effect.
  Only the effect keeps the handle of its timer and clears it in its cleanup; the two
  get-ready timeouts are never cleared. Delays are not modelled: a pending callback may
  fire at any later moment.
\<close>

datatype Callback =
    StartGetReady "Question list"
  | NextGetReady int "Question list"
  | AnswerDwell int "Question list"
  | CalculatingDwell int
  | FlashDwell int "int list"
  | NumberDwell int "int list"

text \<open>
  Running a callback gives the new component state, the get-ready timeout it schedules,
  if any, and the sounds it plays. Where the source would read a property of
  \<^verbatim>\<open>undefined\<close> the callback throws, and the state updates after that point are not
  made.
\<close>

text \<open>The four updates that both get-ready callbacks make to show a question.\<close>

definition showQuestion :: "Question \<Rightarrow> Game \<Rightarrow> Game" where
  "showQuestion q g =
     (let g' = g\<lparr> currentNumbers := numbers q, currentOperations := operations q,
                  currentAnswer := answer q \<rparr>
      in case at_index (numbers q) 0 of
           None \<Rightarrow> g'
         | Some n \<Rightarrow> g'\<lparr> displayNumber := toString n \<rparr>)"

fun fire :: "Callback \<Rightarrow> Game \<Rightarrow> Game \<times> Callback list \<times> SoundType list" where
  "fire (StartGetReady questions) g =
     (let g' = g\<lparr> showingGetReady := False \<rparr>
      in if length questions > 0
         then (case at_index questions 0 of
                 None \<Rightarrow> (g', [], [SndGetReady])
               | Some q \<Rightarrow> (showQuestion q g', [], [SndGetReady]))
         else (g', [], [SndGetReady]))"
| "fire (NextGetReady cq qs) g =
     (let nextQuestionNum = cq + 1;
          g' = g\<lparr> currentQuestion := nextQuestionNum, currentNumberIndex := 0,
                  showingGetReady := False \<rparr>
      in case at_index qs nextQuestionNum of
           None \<Rightarrow> (g', [], [SndGetReady])
         | Some nextQ \<Rightarrow> (showQuestion nextQ g', [], [SndGetReady]))"
| "fire (AnswerDwell cq qs) g =
     (if cq < int (length qs) - 1
      then (g\<lparr> nextQuestionNumber := cq + 2, showingGetReady := True, showingAnswer := False,
               calculatingAnswer := False, flashingBetweenNumbers := False \<rparr>,
            [NextGetReady cq qs], [SndQuestionComplete])
      else (g\<lparr> gameState := Results \<rparr>, [], [SndQuestionComplete, SndGameComplete]))"
| "fire (CalculatingDwell ans) g =
     (g\<lparr> displayNumber := toString ans, calculatingAnswer := False, showingAnswer := True \<rparr>,
      [], [SndAnswerReveal])"
| "fire (FlashDwell idx nums) g =
     (let g' = g\<lparr> flashingBetweenNumbers := False \<rparr>
      in if idx < int (length nums) - 1
         then (let g'' = g'\<lparr> currentNumberIndex := currentNumberIndex g' + 1 \<rparr>
               in case at_index nums (idx + 1) of
                    None \<Rightarrow> (g'', [], [])
                  | Some n \<Rightarrow> (g''\<lparr> displayNumber := toString n \<rparr>, [], []))
         else (g'\<lparr> displayNumber := ''Calculating...'', calculatingAnswer := True \<rparr>,
               [], [SndCalculating]))"
| "fire (NumberDwell idx nums) g =
     (if idx < int (length nums) - 1
      then (g\<lparr> flashingBetweenNumbers := True \<rparr>, [], [])
      else (g\<lparr> displayNumber := ''Calculating...'', calculatingAnswer := True \<rparr>,
            [], [SndCalculating]))"

subsection \<open>Game functions\<close>

text \<open>\<^verbatim>\<open>Object.values(settings.digitTypes).some(enabled => enabled)\<close>\<close>

definition hasDigitType :: "GameSettings \<Rightarrow> bool" where
  "hasDigitType settings =
     (digit1 (digitTypes settings) \<or> digit2 (digitTypes settings) \<or> digit3 (digitTypes settings))"

text \<open>
  \<^verbatim>\<open>startGame\<close> either shows an alert and returns (\<open>Inl\<close> of the message), or plays the
  start sound, generates the questions, resets the state and schedules the get-ready
  timeout.
\<close>

definition startGame ::
  "GameSettings \<Rightarrow> (nat \<Rightarrow> rat) \<Rightarrow> nat \<Rightarrow> Game \<Rightarrow>
     string + (Game \<times> Callback \<times> SoundType list \<times> nat)" where
  "startGame settings rnd k g =
     (if \<not> hasDigitType settings then Inl ''Please select at least one number type!''
      else if numbersPerQuestion settings < 2 then Inl ''Numbers per question must be at least 2!''
      else if numQuestions settings < 1 then Inl ''Number of questions must be at least 1!''
      else (let (questions, k') = batchLoop settings rnd 0 ([], k)
            in Inr (g\<lparr> allQuestions := questions, currentQuestion := 0, nextQuestionNumber := 1,
                       currentNumberIndex := 0, calculatingAnswer := False,
                       showingAnswer := False, showingGetReady := True,
                       flashingBetweenNumbers := False, isPaused := False,
                       gameState := Playing \<rparr>,
                    StartGetReady questions, [SndGameStart], k')))"

text \<open>
  The state updates of \<^verbatim>\<open>pauseGame\<close>, \<^verbatim>\<open>resumeGame\<close> and \<^verbatim>\<open>restartGame\<close>. The sounds that
  the first two play are added where the handlers run on the component, below.
\<close>

definition pauseGame :: "Game \<Rightarrow> Game" where
  "pauseGame g = g\<lparr> isPaused := True, gameState := Paused \<rparr>"

definition resumeGame :: "Game \<Rightarrow> Game" where
  "resumeGame g = g\<lparr> isPaused := False, gameState := Playing \<rparr>"

definition restartGame :: "Game \<Rightarrow> Game" where
  "restartGame g =
     g\<lparr> gameState := Setup, currentQuestion := 0, nextQuestionNumber := 1,
        currentNumberIndex := 0, showingAnswer := False, calculatingAnswer := False,
        showingGetReady := False, flashingBetweenNumbers := False, isPaused := False,
        allQuestions := [] \<rparr>"

subsection \<open>The game logic effect\<close>

text \<open>
  The body of the effect, as a function of the state it is run in: the timer it arms, if
  any. Every value it reads is in its dependency list.
\<close>

definition gameEffect :: "Game \<Rightarrow> Callback option" where
  "gameEffect g =
     (if gameState g \<noteq> Playing \<or> isPaused g \<or> showingGetReady g then None
      else case at_index (allQuestions g) (currentQuestion g) of
             None \<Rightarrow> None
           | Some currentQ \<Rightarrow>
               (if showingAnswer g then Some (AnswerDwell (currentQuestion g) (allQuestions g))
                else if calculatingAnswer g then Some (CalculatingDwell (currentAnswer g))
                else if flashingBetweenNumbers g
                  then Some (FlashDwell (currentNumberIndex g) (currentNumbers g))
                else if currentNumberIndex g < int (length (currentNumbers g))
                  then Some (NumberDwell (currentNumberIndex g) (currentNumbers g))
                else None))"

text \<open>The dependency list of the effect, without \<^verbatim>\<open>settings\<close>.\<close>

definition effectDeps ::
  "Game \<Rightarrow> GameState \<times> int \<times> int \<times> bool \<times> bool \<times> bool \<times> bool \<times> int list \<times> int \<times> Question list \<times> bool" where
  "effectDeps g =
     (gameState g, currentQuestion g, currentNumberIndex g, showingAnswer g,
      calculatingAnswer g, flashingBetweenNumbers g, showingGetReady g, currentNumbers g,
      currentAnswer g, allQuestions g, isPaused g)"

subsection \<open>The running component\<close>

text \<open>
  The component together with its pending timers: \<open>effectTimer\<close> is the timer armed by
  the last run of the effect and not yet fired or cleared, \<open>timeouts\<close> are the pending
  get-ready timeouts, \<open>soundTimeouts\<close> are the pending notes of sounds,
  \<open>currentSettings\<close> is the state variable \<^verbatim>\<open>settings\<close>, \<open>randomCalls\<close> counts the calls of
  \<^verbatim>\<open>Math.random\<close> so far, and \<open>audioRunning\<close> tells whether audio is available, which
  the environment may change at any time.
\<close>

record System =
  currentSettings :: GameSettings
  game :: Game
  effectTimer :: "Callback option"
  timeouts :: "Callback list"
  soundTimeouts :: "Note list"
  randomCalls :: nat
  audioRunning :: bool

definition initialSystem :: "GameSettings \<Rightarrow> System" where
  "initialSystem loaded =
     \<lparr> currentSettings = loaded, game = initialGame, effectTimer = None, timeouts = [],
       soundTimeouts = [], randomCalls = 0, audioRunning = True \<rparr>"

text \<open>The calls of \<^verbatim>\<open>playSound\<close> of a handler or callback: their notes become pending.\<close>

definition withSounds :: "SoundType list \<Rightarrow> System \<Rightarrow> System" where
  "withSounds sounds s =
     s\<lparr> soundTimeouts := soundTimeouts s @ concat (map (playSound (audioRunning s)) sounds) \<rparr>"

text \<open>
  After an event handler or a callback has run, the component renders again. When a
  dependency of the effect has changed, the cleanup clears the effect's timer and the
  effect runs in the new state; otherwise the timer stays as it is. A handler or callback
  and the rendering that follows it are one step: no other event comes between them.

  The model compares the arrays among the dependencies by value, React by identity. Where
  two arrays are equal in value only, React clears the timer and arms the same one again,
  which without delays is the same pending timer.
\<close>

definition rerender :: "System \<Rightarrow> System \<Rightarrow> System" where
  "rerender previous s =
     (if effectDeps (game s) = effectDeps (game previous) \<and>
         currentSettings s = currentSettings previous
      then s
      else s\<lparr> effectTimer := gameEffect (game s) \<rparr>)"

text \<open>Which buttons the rendered screen offers.\<close>

definition startAvailable :: "Game \<Rightarrow> bool" where
  "startAvailable g = (gameState g = Setup)"

definition pauseAvailable :: "Game \<Rightarrow> bool" where
  "pauseAvailable g = (gameState g = Playing \<and> \<not> showingGetReady g)"

definition resumeAvailable :: "Game \<Rightarrow> bool" where
  "resumeAvailable g = (gameState g = Paused)"

definition restartAvailable :: "Game \<Rightarrow> bool" where
  "restartAvailable g =
     ((gameState g = Playing \<and> \<not> showingGetReady g) \<or> gameState g = Paused \<or>
      gameState g = Results)"

text \<open>The handlers, run on the component with its timers.\<close>

definition invokeStart :: "(nat \<Rightarrow> rat) \<Rightarrow> System \<Rightarrow> System" where
  "invokeStart rnd s =
     (case startGame (currentSettings s) rnd (randomCalls s) (game s) of
        Inl message \<Rightarrow> s
      | Inr (g', timeout, sounds, k') \<Rightarrow>
          rerender s (withSounds sounds
            (s\<lparr> game := g', timeouts := timeouts s @ [timeout], randomCalls := k' \<rparr>)))"

definition invokePause :: "System \<Rightarrow> System" where
  "invokePause s = rerender s (withSounds [SndPause] (s\<lparr> game := pauseGame (game s) \<rparr>))"

definition invokeResume :: "System \<Rightarrow> System" where
  "invokeResume s = rerender s (withSounds [SndResume] (s\<lparr> game := resumeGame (game s) \<rparr>))"

definition invokeRestart :: "System \<Rightarrow> System" where
  "invokeRestart s = rerender s (s\<lparr> game := restartGame (game s) \<rparr>)"

definition fireEffectTimer :: "System \<Rightarrow> System" where
  "fireEffectTimer s =
     (case effectTimer s of
        None \<Rightarrow> s
      | Some cb \<Rightarrow>
          (let (g', scheduled, sounds) = fire cb (game s)
           in rerender s (withSounds sounds
                (s\<lparr> game := g', effectTimer := None,
                   timeouts := timeouts s @ scheduled \<rparr>))))"

definition fireTimeout :: "nat \<Rightarrow> System \<Rightarrow> System" where
  "fireTimeout i s =
     (if i < length (timeouts s)
      then (let (g', scheduled, sounds) = fire (timeouts s ! i) (game s)
            in rerender s (withSounds sounds
                 (s\<lparr> game := g',
                    timeouts := take i (timeouts s) @ drop (Suc i) (timeouts s) @ scheduled \<rparr>)))
      else s)"

text \<open>A pending note plays: it leaves the list and nothing else changes.\<close>

definition fireSoundTimeout :: "nat \<Rightarrow> System \<Rightarrow> System" where
  "fireSoundTimeout i s =
     (if i < length (soundTimeouts s)
      then s\<lparr> soundTimeouts := take i (soundTimeouts s) @ drop (Suc i) (soundTimeouts s) \<rparr>
      else s)"

datatype Event =
    ClickStart | ClickPause | ClickResume | ClickRestart
  | ChangeSettings GameSettings
  | EffectTimerFires
  | TimeoutFires nat
  | SoundTimeoutFires nat
  | AudioChanges bool

text \<open>
  One event: a click on a button that the current screen shows, a change of the settings
  on the setup screen, a pending timer firing, or audio becoming available or not. An
  event that cannot happen in the current state leaves it unchanged. Every button plays
  the click sound before it calls its handler, and a change of the settings plays its
  sound.
\<close>

fun step :: "(nat \<Rightarrow> rat) \<Rightarrow> Event \<Rightarrow> System \<Rightarrow> System" where
  "step rnd ClickStart s =
     (if startAvailable (game s) then invokeStart rnd (withSounds [SndButtonClick] s) else s)"
| "step rnd ClickPause s =
     (if pauseAvailable (game s) then invokePause (withSounds [SndButtonClick] s) else s)"
| "step rnd ClickResume s =
     (if resumeAvailable (game s) then invokeResume (withSounds [SndButtonClick] s) else s)"
| "step rnd ClickRestart s =
     (if restartAvailable (game s) then invokeRestart (withSounds [SndButtonClick] s) else s)"
| "step rnd (ChangeSettings new) s =
     (if gameState (game s) = Setup
      then rerender s (withSounds [SndSettingChange] (s\<lparr> currentSettings := new \<rparr>))
      else s)"
| "step rnd EffectTimerFires s = fireEffectTimer s"
| "step rnd (TimeoutFires i) s = fireTimeout i s"
| "step rnd (SoundTimeoutFires i) s = fireSoundTimeout i s"
| "step rnd (AudioChanges available) s = s\<lparr> audioRunning := available \<rparr>"

fun run :: "(nat \<Rightarrow> rat) \<Rightarrow> Event list \<Rightarrow> System \<Rightarrow> System" where
  "run rnd [] s = s"
| "run rnd (e # es) s = run rnd es (step rnd e s)"


subsection \<open>Left-to-right evaluation of a question\<close>

text \<open>
  The evaluation the specification speaks of: start with the first number and apply each
  operator to the value so far and the next number. An operator other than \<open>+\<close> subtracts.
\<close>

definition applyOp :: "string \<Rightarrow> int \<Rightarrow> int \<Rightarrow> int" where
  "applyOp op acc n = (if op = ''+'' then acc + n else acc - n)"

fun evalFrom :: "int \<Rightarrow> string list \<Rightarrow> int list \<Rightarrow> int" where
  "evalFrom acc (op # ops) (n # ns) = evalFrom (applyOp op acc n) ops ns"
| "evalFrom acc _ _ = acc"

definition evalLeftToRight :: "int list \<Rightarrow> string list \<Rightarrow> int" where
  "evalLeftToRight ns ops = (case ns of [] \<Rightarrow> 0 | n # rest \<Rightarrow> evalFrom n ops rest)"

text \<open>The value after the first \<open>j\<close> operators have been applied.\<close>

definition prefixValue :: "Question \<Rightarrow> nat \<Rightarrow> int" where
  "prefixValue q j = evalLeftToRight (take (Suc j) (numbers q)) (take j (operations q))"

text \<open>An operand lies in the range of an enabled digit-size class, or in that of the
  1-digit class when none is enabled.\<close>

definition operandAllowed :: "GameSettings \<Rightarrow> int \<Rightarrow> bool" where
  "operandAllowed settings x =
     ((digit1 (digitTypes settings) \<and> 1 \<le> x \<and> x \<le> 9) \<or>
      (digit2 (digitTypes settings) \<and> 10 \<le> x \<and> x \<le> 99) \<or>
      (digit3 (digitTypes settings) \<and> 100 \<le> x \<and> x \<le> 999) \<or>
      (\<not> digit1 (digitTypes settings) \<and> \<not> digit2 (digitTypes settings) \<and>
       \<not> digit3 (digitTypes settings) \<and> 1 \<le> x \<and> x \<le> 9))"

subsection \<open>Concrete inputs and loop invariants\<close>

text \<open>A random source whose every outcome is the double \<^verbatim>\<open>0.3333333333333333\<close>.\<close>

definition thirds :: "nat \<Rightarrow> rat" where
  "thirds k = 6004799503160661 / 18014398509481984"

text \<open>A random source whose every outcome is the double \<^verbatim>\<open>0.6666666666666666\<close>: it picks
  \<open>-\<close> where it may.\<close>

definition twoThirds :: "nat \<Rightarrow> rat" where
  "twoThirds k = 6004799503160661 / 9007199254740992"

text \<open>A random source whose every outcome is the double \<^verbatim>\<open>0.4444444444444444\<close>.\<close>

definition fourNinths :: "nat \<Rightarrow> rat" where
  "fourNinths k = 2001599834386887 / 4503599627370496"

text \<open>The state of \<^verbatim>\<open>generateQuestion\<close> when its loop is entered.\<close>

definition initialGen :: "GameSettings \<Rightarrow> (nat \<Rightarrow> rat) \<Rightarrow> nat \<Rightarrow> GenState" where
  "initialGen settings rnd k =
     \<lparr> g_numbers = [fst (generateNumber settings rnd k)], g_operations = [],
       runningTotal = fst (generateNumber settings rnd k),
       calls = snd (generateNumber settings rnd k) \<rparr>"

definition wellFormed :: "GenState \<Rightarrow> bool" where
  "wellFormed st = (length (g_numbers st) = Suc (length (g_operations st)) \<and>
      runningTotal st = evalLeftToRight (g_numbers st) (g_operations st))"

definition prefixesNonneg :: "GenState \<Rightarrow> bool" where
  "prefixesNonneg st = (wellFormed st \<and>
     (\<forall>j < length (g_numbers st).
        0 \<le> evalLeftToRight (take (Suc j) (g_numbers st)) (take j (g_operations st))))"

definition sumInv :: "GenState \<Rightarrow> bool" where
  "sumInv st = (runningTotal st = sum_list (g_numbers st) \<and>
     (\<forall>op \<in> set (g_operations st). op = ''+''))"

text \<open>Settings with no digit-size class enabled, and addition-only settings for a small batch.\<close>

definition noDigitSettings :: GameSettings where
  "noDigitSettings =
     defaultSettings\<lparr> digitTypes := \<lparr> digit1 = False, digit2 = False, digit3 = False \<rparr> \<rparr>"

definition additionSettings :: GameSettings where
  "additionSettings =
     defaultSettings\<lparr> operationMode := Addition, numQuestions := 2, numbersPerQuestion := 3 \<rparr>"

text \<open>Settings with only the 1-digit class enabled, for questions of three numbers.\<close>

definition oneDigitSettings :: GameSettings where
  "oneDigitSettings =
     defaultSettings\<lparr> digitTypes := \<lparr> digit1 = True, digit2 = False, digit3 = False \<rparr>,
       numbersPerQuestion := 3 \<rparr>"

text \<open>Settings for a game of two questions of two numbers, and the state of that game, with
  the random source \<open>twoThirds\<close>, while the first number is shown.\<close>

definition smallSettings :: GameSettings where
  "smallSettings = defaultSettings\<lparr> numQuestions := 2, numbersPerQuestion := 2 \<rparr>"

definition showingFirstNumber :: System where
  "showingFirstNumber = run twoThirds [ClickStart, TimeoutFires 0] (initialSystem smallSettings)"

subsection \<open>Pending timers of a running component\<close>


section \<open>Properties of the generator\<close>

subsection \<open>Random draws\<close>

lemma bitlen_pos: "0 < p \<Longrightarrow> 1 \<le> bitlen p"
  using bitlen_eq_zero_iff [of p] bitlen_nonneg [of p] by linarith

lemma exponentOf_lower:
  assumes "0 < x"
  shows "2 powi (exponentOf x) \<le> x"
proof -
  obtain p q where pq: "quotient_of x = (p, q)" by (cases "quotient_of x")
  have q: "0 < q" using pq by (rule quotient_of_denom_pos)
  have x: "x = of_int p / of_int q" using pq by (rule quotient_of_div)
  have p: "0 < p" using assms q x by (simp add: zero_less_divide_iff)
  let ?a = "bitlen p - 1" and ?b = "bitlen q"
  have a: "0 \<le> ?a" using bitlen_pos [OF p] by simp
  have b: "0 \<le> ?b" by (rule bitlen_nonneg)
  have bp: "(2::rat) ^ nat ?a \<le> of_int p"
  proof -
    have "(2::int) ^ nat ?a \<le> p" using bitlen_bounds [OF p] by simp
    then have "(of_int ((2::int) ^ nat ?a) :: rat) \<le> of_int p" by (simp only: of_int_le_iff)
    then show ?thesis by simp
  qed
  have bq: "of_int q \<le> (2::rat) ^ nat ?b"
  proof -
    have "q \<le> (2::int) ^ nat ?b" using bitlen_bounds [OF q] by simp
    then have "(of_int q :: rat) \<le> of_int ((2::int) ^ nat ?b)" by (simp only: of_int_le_iff)
    then show ?thesis by simp
  qed
  have "(2::rat) powi (?a - ?b) = 2 powi ?a / 2 powi ?b"
    by (simp add: power_int_diff)
  also have "\<dots> = 2 ^ nat ?a / 2 ^ nat ?b"
    using a b by (simp add: power_int_def)
  also have "\<dots> \<le> of_int p / of_int q"
    using bp bq q p by (intro frac_le) simp_all
  finally have low: "(2::rat) powi (bitlen p - bitlen q - 1) \<le> x"
    by (simp add: x algebra_simps)
  show ?thesis
    using low by (simp add: exponentOf_def pq Let_def)
qed

lemma roundHalfEven_nonneg: "0 \<le> x \<Longrightarrow> 0 \<le> roundHalfEven x"
  by (simp add: roundHalfEven_def Let_def)

lemma roundHalfEven_below:
  assumes "x < of_int z - 1 / 2"
  shows "roundHalfEven x \<le> z - 1"
proof -
  let ?f = "\<lfloor>x\<rfloor>"
  have f: "of_int ?f \<le> x" by simp
  then have "(of_int ?f :: rat) < of_int z" using assms by linarith
  then have fz: "?f \<le> z - 1" by simp
  show ?thesis
  proof (cases "x - of_int ?f < 1 / 2")
    case True
    then show ?thesis using fz by (simp add: roundHalfEven_def Let_def)
  next
    case False
    then have "of_int ?f + 1 / 2 \<le> x" by simp
    then have "(of_int ?f :: rat) + 1 < of_int z" using assms by linarith
    then have "(of_int (?f + 1) :: rat) < of_int z" by simp
    then have "?f + 1 < z" by (simp only: of_int_less_iff)
    then show ?thesis by (simp add: roundHalfEven_def Let_def)
  qed
qed

lemma double_below_one:
  assumes "isDouble r" "r < 1"
  shows "r \<le> 1 - 1 / 2 ^ 53"
proof -
  obtain m e where r: "r = of_int m * 2 powi e" and m: "\<bar>m\<bar> < 2 ^ 53"
    using assms(1) by (auto simp: isDouble_def)
  show ?thesis
  proof (cases "m \<le> 0")
    case True
    then have "r \<le> 0" by (simp add: r mult_nonpos_nonneg)
    then show ?thesis by simp
  next
    case False
    then have mpos: "1 \<le> m" by simp
    consider "0 \<le> e" | "- 53 \<le> e" "e < 0" | "e < - 53" by linarith
    then show ?thesis
    proof cases
      case 1
      then have "(1::rat) \<le> 2 powi e" by (simp add: power_int_def)
      moreover have "(1::rat) \<le> of_int m" using mpos by simp
      ultimately have "1 * 1 \<le> of_int m * (2::rat) powi e" by (intro mult_mono) simp_all
      then show ?thesis using assms(2) r by simp
    next
      case 2
      let ?k = "nat (- e)"
      have pe: "(2::rat) powi e = 1 / 2 ^ ?k" using 2 by (simp add: power_int_def power_one_over)
      have "of_int m / (2::rat) ^ ?k < 1" using assms(2) by (simp add: r pe)
      then have "(of_int m :: rat) < 2 ^ ?k" by (simp add: divide_less_eq)
      then have "(of_int m :: rat) < of_int (2 ^ ?k)" by simp
      then have "m < 2 ^ ?k" by (simp only: of_int_less_iff)
      then have "m \<le> 2 ^ ?k - 1" by simp
      then have "(of_int m :: rat) \<le> of_int (2 ^ ?k - 1)" by (simp only: of_int_le_iff)
      then have "(of_int m :: rat) \<le> 2 ^ ?k - 1" by simp
      then have "of_int m / (2::rat) ^ ?k \<le> (2 ^ ?k - 1) / 2 ^ ?k" by (simp add: divide_right_mono)
      then have le: "r \<le> 1 - 1 / 2 ^ ?k" by (simp add: r pe diff_divide_distrib)
      have "?k \<le> 53" using 2 by simp
      then have "(2::rat) ^ ?k \<le> 2 ^ 53" by (intro power_increasing) simp_all
      then have "1 / (2::rat) ^ 53 \<le> 1 / 2 ^ ?k" by (intro divide_left_mono) simp_all
      then show ?thesis using le by linarith
    next
      case 3
      have "(2::rat) powi e \<le> 2 powi (- 54)" using 3 by (intro power_int_increasing) simp_all
      moreover have "(of_int m :: rat) \<le> 2 ^ 53"
      proof -
        have "m \<le> 2 ^ 53" using m by simp
        then have "(of_int m :: rat) \<le> of_int (2 ^ 53)" by (simp only: of_int_le_iff)
        then show ?thesis by simp
      qed
      ultimately have "of_int m * (2::rat) powi e \<le> 2 ^ 53 * 2 powi (- 54)"
        by (intro mult_mono) simp_all
      also have "\<dots> = 1 / 2" by (simp add: power_int_def power_one_over)
      finally show ?thesis by (simp add: r)
    qed
  qed
qed

lemma randomBelow_range:
  assumes r: "0 \<le> r" "r \<le> 1 - 1 / 2 ^ 53" and n: "0 < n" "n \<le> 2 ^ 53"
  shows "0 \<le> randomBelow r n \<and> randomBelow r n < n"
proof (cases "r = 0")
  case True
  then show ?thesis using n by (simp add: randomBelow_def roundToDouble_def)
next
  case False
  define x where "x = r * of_int n"
  have x0: "0 < x" using False r n by (simp add: x_def)
  have xn: "x \<le> of_int n - of_int n / 2 ^ 53"
  proof -
    have "r * of_int n \<le> (1 - 1 / 2 ^ 53) * of_int n"
      using r(2) n(1) by (intro mult_right_mono) simp_all
    then show ?thesis by (simp add: x_def algebra_simps)
  qed
  have n53: "(of_int n :: rat) \<le> 2 ^ 53"
  proof -
    have "(of_int n :: rat) \<le> of_int (2 ^ 53)" using n(2) by (simp only: of_int_le_iff)
    then show ?thesis by simp
  qed
  have npos: "(0::rat) < of_int n / 2 ^ 53" using n(1) by simp
  have xlt: "x < of_int n" using xn npos by linarith
  define e where "e = exponentOf x"
  have low: "2 powi e \<le> x" unfolding e_def using x0 by (rule exponentOf_lower)
  have "(2::rat) powi e < 2 ^ 53" using low xlt n53 by linarith
  then have "(2::rat) powi e < 2 powi 53" by (simp add: power_int_def)
  then have e53: "e < 53" by (rule power_int_le_imp_less_exp [rotated]) simp_all
  define q where "q = max e (- 1022) - 52"
  define k where "k = nat (- q)"
  have q0: "q \<le> 0" using e53 by (simp add: q_def)
  have U: "(2::rat) powi q = 1 / 2 ^ k"
    using q0 by (cases "q = 0") (simp_all add: k_def power_int_def power_one_over)
  define t where "t = x / 2 powi q"
  have t: "t = x * 2 ^ k" by (simp add: t_def U)
  have big: "(2::rat) powi (q + 52) < of_int n"
  proof (cases "- 1022 \<le> e")
    case True
    then have "q + 52 = e" by (simp add: q_def)
    then show ?thesis using low xlt by simp
  next
    case False
    then have eq: "q + 52 = - 1022" by (simp add: q_def)
    have "(2::rat) powi (- 1022) < 1"
      using power_int_strict_increasing [of "- 1022" 0 "2::rat"] by simp
    moreover have "(1::rat) \<le> of_int n" using n(1) by simp
    ultimately have "(2::rat) powi (- 1022) < of_int n" by linarith
    then show ?thesis by (simp only: eq)
  qed
  have half: "1 / 2 < of_int n / 2 ^ 53 * (2::rat) ^ k"
  proof -
    have p52: "(2::rat) powi 52 = 2 ^ 52" by (simp add: power_int_def)
    have "(2::rat) powi (q + 52) = 2 powi q * 2 powi 52"
      by (simp add: power_int_add)
    also have "\<dots> = 1 / 2 ^ k * 2 ^ 52" by (simp only: U p52)
    finally have "1 / 2 ^ k * (2::rat) ^ 52 < of_int n" using big by simp
    then have "(2::rat) ^ 52 < of_int n * 2 ^ k" by (simp add: divide_less_eq)
    then show ?thesis by simp
  qed
  have "t \<le> (of_int n - of_int n / 2 ^ 53) * 2 ^ k"
    unfolding t using xn by (intro mult_right_mono) simp_all
  then have "t < of_int (n * 2 ^ k) - 1 / 2"
    using half by (simp add: algebra_simps)
  then have m: "roundHalfEven t \<le> n * 2 ^ k - 1" by (rule roundHalfEven_below)
  have "0 \<le> t" using x0 by (simp add: t)
  then have m0: "0 \<le> roundHalfEven t" by (rule roundHalfEven_nonneg)
  have rd: "roundToDouble x = of_int (roundHalfEven t) * 2 powi q"
    using x0 by (simp add: roundToDouble_def Let_def t_def q_def e_def)
  have "(of_int (roundHalfEven t) :: rat) \<le> of_int (n * 2 ^ k - 1)"
    using m by (simp only: of_int_le_iff)
  then have "(of_int (roundHalfEven t) :: rat) < of_int n * 2 ^ k" by simp
  then have up: "roundToDouble x < of_int n" by (simp add: rd U divide_less_eq)
  have lo: "0 \<le> roundToDouble x" using m0 by (simp add: rd)
  show ?thesis using lo up by (simp add: randomBelow_def floor_less_iff x_def)
qed

lemma at_index_in_range:
  "0 \<le> i \<Longrightarrow> i < int (length xs) \<Longrightarrow> \<exists>t \<in> set xs. at_index xs i = Some t"
  by (simp add: at_index_def)

lemma enabledTypes_nonempty: "0 < length (enabledTypes settings)"
  by (simp add: enabledTypes_def Let_def)

lemma enabledTypes_member:
  "t \<in> set (enabledTypes settings) \<Longrightarrow>
     (t = D1digit \<and> (digit1 (digitTypes settings) \<or>
        (\<not> digit1 (digitTypes settings) \<and> \<not> digit2 (digitTypes settings) \<and> \<not> digit3 (digitTypes settings)))) \<or>
     (t = D2digit \<and> digit2 (digitTypes settings)) \<or>
     (t = D3digit \<and> digit3 (digitTypes settings))"
  by (auto simp: enabledTypes_def Let_def split: if_splits)

lemma unitInterval_draw:
  assumes "unitInterval rnd"
  shows "0 \<le> rnd k \<and> rnd k \<le> 1 - 1 / 2 ^ 53"
proof -
  have "isDouble (rnd k)" "0 \<le> rnd k" "rnd k < 1"
    using assms by (simp_all add: unitInterval_def)
  then show ?thesis using double_below_one by blast
qed

lemma generateNumber_allowed:
  assumes "unitInterval rnd"
  shows "operandAllowed settings (fst (generateNumber settings rnd k))"
proof -
  let ?ts = "enabledTypes settings"
  have r0: "0 \<le> rnd k" "rnd k \<le> 1 - 1 / 2 ^ 53"
    and r1: "0 \<le> rnd (k + 1)" "rnd (k + 1) \<le> 1 - 1 / 2 ^ 53"
    using unitInterval_draw [OF assms] by simp_all
  have len: "0 < int (length ?ts)" "int (length ?ts) \<le> 2 ^ 53"
    by (simp_all add: enabledTypes_def Let_def)
  have "0 \<le> randomBelow (rnd k) (int (length ?ts)) \<and>
        randomBelow (rnd k) (int (length ?ts)) < int (length ?ts)"
    using r0 len by (rule randomBelow_range)
  then obtain t where t: "t \<in> set ?ts"
      "at_index ?ts (randomBelow (rnd k) (int (length ?ts))) = Some t"
    using at_index_in_range by blast
  have b9: "0 \<le> randomBelow (rnd (k + 1)) 9 \<and> randomBelow (rnd (k + 1)) 9 < 9"
    using r1 by (rule randomBelow_range) simp_all
  have b90: "0 \<le> randomBelow (rnd (k + 1)) 90 \<and> randomBelow (rnd (k + 1)) 90 < 90"
    using r1 by (rule randomBelow_range) simp_all
  have b900: "0 \<le> randomBelow (rnd (k + 1)) 900 \<and> randomBelow (rnd (k + 1)) 900 < 900"
    using r1 by (rule randomBelow_range) simp_all
  show ?thesis
    using enabledTypes_member [OF t(1)] t(2) b9 b90 b900
    by (cases t) (auto simp: generateNumber_def Let_def operandAllowed_def)
qed

lemma operandAllowed_positive: "operandAllowed settings x \<Longrightarrow> 1 \<le> x"
  by (auto simp: operandAllowed_def)

subsection \<open>The loop body\<close>

lemma chooseOp_minus:
  "fst (chooseOp settings rnd rt n k) = ''-'' \<Longrightarrow> n < rt \<and> operationMode settings = Both"
  by (cases "operationMode settings") (auto simp: chooseOp_def split: if_splits)

lemma chooseOp_cases:
  "fst (chooseOp settings rnd rt n k) = ''+'' \<or> fst (chooseOp settings rnd rt n k) = ''-''"
  by (simp add: chooseOp_def)

lemma guard_never_fires: "\<not> guardFires (fst (chooseOp settings rnd rt n k)) rt n"
  using chooseOp_minus [of settings rnd rt n k] by (auto simp: guardFires_def)

lemma repair_identity:
  "repair rnd (fst (chooseOp settings rnd rt n k)) rt n k' = (n, fst (chooseOp settings rnd rt n k), k')"
  by (simp add: repair_def guard_never_fires)

lemma questionStep_unfold:
  "questionStep settings rnd st =
     \<lparr> g_numbers = g_numbers st @ [fst (generateNumber settings rnd (calls st))],
       g_operations = g_operations st @
          [fst (chooseOp settings rnd (runningTotal st) (fst (generateNumber settings rnd (calls st)))
                 (snd (generateNumber settings rnd (calls st))))],
       runningTotal = applyOp
          (fst (chooseOp settings rnd (runningTotal st) (fst (generateNumber settings rnd (calls st)))
                 (snd (generateNumber settings rnd (calls st)))))
          (runningTotal st) (fst (generateNumber settings rnd (calls st))),
       calls = snd (chooseOp settings rnd (runningTotal st) (fst (generateNumber settings rnd (calls st)))
                 (snd (generateNumber settings rnd (calls st)))) \<rparr>"
  unfolding questionStep_def split_beta Let_def repair_identity applyOp_def by simp

lemma questionLoop_invariant:
  assumes "P st" and "\<And>s. P s \<Longrightarrow> P (questionStep settings rnd s)"
  shows "P (questionLoop settings rnd i st)"
  using assms
proof (induction settings rnd i st rule: questionLoop.induct)
  case (1 settings rnd i st)
  show ?case
  proof (cases "i < numbersPerQuestion settings")
    case True
    then show ?thesis
      using "1.IH" [OF True] "1.prems" by (subst questionLoop.simps) simp
  next
    case False
    then show ?thesis using "1.prems" by (subst questionLoop.simps) simp
  qed
qed

subsection \<open>Evaluation and the running total\<close>

lemma evalFrom_snoc:
  "length ns = length ops \<Longrightarrow>
     evalFrom a (ops @ [op]) (ns @ [n]) = applyOp op (evalFrom a ops ns) n"
proof (induction ops arbitrary: a ns)
  case Nil
  then show ?case by simp
next
  case (Cons o1 ops)
  then obtain m ms where "ns = m # ms" by (cases ns) auto
  with Cons show ?case by simp
qed

lemma evalLeftToRight_snoc:
  "length ns = Suc (length ops) \<Longrightarrow>
     evalLeftToRight (ns @ [n]) (ops @ [op]) = applyOp op (evalLeftToRight ns ops) n"
  by (cases ns) (simp_all add: evalLeftToRight_def evalFrom_snoc)

lemma evalLeftToRight_single: "evalLeftToRight [n] [] = n"
  by (simp add: evalLeftToRight_def)

lemma wellFormed_step: "wellFormed st \<Longrightarrow> wellFormed (questionStep settings rnd st)"
  by (simp add: wellFormed_def questionStep_unfold evalLeftToRight_snoc)

lemma wellFormed_loop: "wellFormed st \<Longrightarrow> wellFormed (questionLoop settings rnd i st)"
  by (rule questionLoop_invariant) (auto intro: wellFormed_step)

lemma prefixesNonneg_total: 
  assumes "prefixesNonneg st" shows "0 \<le> runningTotal st"
proof -
  have len: "length (g_numbers st) = Suc (length (g_operations st))"
    and rt: "runningTotal st = evalLeftToRight (g_numbers st) (g_operations st)"
    using assms by (simp_all add: prefixesNonneg_def wellFormed_def)
  have all: "\<forall>j < length (g_numbers st).
      0 \<le> evalLeftToRight (take (Suc j) (g_numbers st)) (take j (g_operations st))"
    using assms by (simp add: prefixesNonneg_def)
  have "length (g_operations st) < length (g_numbers st)" using len by simp
  with all have "0 \<le> evalLeftToRight (take (Suc (length (g_operations st))) (g_numbers st))
                (take (length (g_operations st)) (g_operations st))"
    by blast
  then show ?thesis using len rt by simp
qed

lemma prefixesNonneg_step:
  assumes rnd: "unitInterval rnd" and inv: "prefixesNonneg st"
  shows "prefixesNonneg (questionStep settings rnd st)"
proof -
  let ?n = "fst (generateNumber settings rnd (calls st))"
  let ?op = "fst (chooseOp settings rnd (runningTotal st) ?n (snd (generateNumber settings rnd (calls st))))"
  let ?st' = "questionStep settings rnd st"
  have wf: "wellFormed st" using inv by (simp add: prefixesNonneg_def)
  have len: "length (g_numbers st) = Suc (length (g_operations st))"
    using wf by (simp add: wellFormed_def)
  have nums: "g_numbers ?st' = g_numbers st @ [?n]" and ops: "g_operations ?st' = g_operations st @ [?op]"
    and tot: "runningTotal ?st' = applyOp ?op (runningTotal st) ?n"
    by (simp_all add: questionStep_unfold)
  have wf': "wellFormed ?st'" using wf by (rule wellFormed_step)
  have pos: "1 \<le> ?n"
    using generateNumber_allowed [OF rnd] by (rule operandAllowed_positive)
  have rt0: "0 \<le> runningTotal st" using inv by (rule prefixesNonneg_total)
  have new: "0 \<le> applyOp ?op (runningTotal st) ?n"
  proof (cases "?op = ''+''")
    case True
    then show ?thesis using pos rt0 by (simp add: applyOp_def)
  next
    case False
    then have "?op = ''-''" using chooseOp_cases by blast
    then have "?n < runningTotal st" using chooseOp_minus by blast
    then show ?thesis using False by (simp add: applyOp_def)
  qed
  have "0 \<le> evalLeftToRight (take (Suc j) (g_numbers ?st')) (take j (g_operations ?st'))"
    if j: "j < length (g_numbers ?st')" for j
  proof (cases "j < length (g_numbers st)")
    case True
    then have "take (Suc j) (g_numbers ?st') = take (Suc j) (g_numbers st)"
      and "take j (g_operations ?st') = take j (g_operations st)"
      using len by (simp_all add: nums ops)
    then show ?thesis using inv True by (simp add: prefixesNonneg_def)
  next
    case False
    then have "j = length (g_numbers st)" using j by (simp add: nums)
    then have "take (Suc j) (g_numbers ?st') = g_numbers ?st'"
      and "take j (g_operations ?st') = g_operations ?st'"
      using len by (simp_all add: nums ops)
    then show ?thesis using wf' new tot by (simp add: wellFormed_def)
  qed
  then show ?thesis using wf' by (simp add: prefixesNonneg_def)
qed

lemma prefixesNonneg_initial:
  assumes "unitInterval rnd" shows "prefixesNonneg (initialGen settings rnd k)"
proof -
  have "1 \<le> fst (generateNumber settings rnd k)"
    using generateNumber_allowed [OF assms] by (rule operandAllowed_positive)
  then show ?thesis
    by (simp add: prefixesNonneg_def wellFormed_def initialGen_def evalLeftToRight_single)
qed

lemma generateQuestion_loop:
  "fst (generateQuestion settings rnd k) =
     \<lparr> numbers = g_numbers (questionLoop settings rnd 1 (initialGen settings rnd k)),
       operations = g_operations (questionLoop settings rnd 1 (initialGen settings rnd k)),
       answer = runningTotal (questionLoop settings rnd 1 (initialGen settings rnd k)) \<rparr>"
  by (simp add: generateQuestion_def split_beta Let_def initialGen_def)

lemma chooseOp_addition:
  "operationMode settings = Addition \<Longrightarrow> chooseOp settings rnd rt n k = (''+'', k)"
  by (simp add: chooseOp_def)

lemma sumInv_step:
  "operationMode settings = Addition \<Longrightarrow> sumInv st \<Longrightarrow> sumInv (questionStep settings rnd st)"
  by (simp add: sumInv_def questionStep_unfold chooseOp_addition applyOp_def)

lemma sumInv_loop:
  assumes "operationMode settings = Addition"
  shows "sumInv (questionLoop settings rnd 1 (initialGen settings rnd k))"
proof (rule questionLoop_invariant)
  show "sumInv (initialGen settings rnd k)"
    by (simp add: sumInv_def initialGen_def)
  show "sumInv (questionStep settings rnd s)" if "sumInv s" for s
    using assms that by (rule sumInv_step)
qed

subsection \<open>The level, the batch and the lengths\<close>

lemma enabledTypes_level: "enabledTypes (settings\<lparr>level := l\<rparr>) = enabledTypes settings"
  by (simp add: enabledTypes_def)

lemma generateNumber_level:
  "generateNumber (settings\<lparr>level := l\<rparr>) rnd k = generateNumber settings rnd k"
  by (simp add: generateNumber_def enabledTypes_level)

lemma questionStep_level:
  "questionStep (settings\<lparr>level := l\<rparr>) rnd st = questionStep settings rnd st"
  by (simp add: questionStep_def generateNumber_level chooseOp_def)

lemma questionLoop_level:
  "questionLoop (settings\<lparr>level := l\<rparr>) rnd i st = questionLoop settings rnd i st"
proof (induction settings rnd i st rule: questionLoop.induct)
  case (1 settings rnd i st)
  show ?case
  proof (cases "i < numbersPerQuestion settings")
    case True
    then show ?thesis
      using "1.IH" [OF True]
      by (subst questionLoop.simps, subst (2) questionLoop.simps) (simp add: questionStep_level)
  next
    case False
    then show ?thesis
      by (subst questionLoop.simps, subst (2) questionLoop.simps) simp
  qed
qed

lemma batchLoop_invariant:
  assumes "\<forall>q \<in> set qs. P q" and "\<And>k. P (fst (generateQuestion settings rnd k))"
  shows "\<forall>q \<in> set (fst (batchLoop settings rnd i (qs, k))). P q"
  using assms
proof (induction settings rnd i "(qs, k)" arbitrary: qs k rule: batchLoop.induct)
  case (1 settings rnd i questions k)
  show ?case
  proof (cases "i < numQuestions settings")
    case True
    obtain q k' where g: "generateQuestion settings rnd k = (q, k')"
      by (cases "generateQuestion settings rnd k")
    have "P q" using "1.prems"(2) [of k] g by simp
    then have "\<forall>x \<in> set (questions @ [q]). P x" using "1.prems"(1) by simp
    then have "\<forall>x \<in> set (fst (batchLoop settings rnd (i + 1) (questions @ [q], k'))). P x"
      using "1.hyps" [OF True g [symmetric] refl] "1.prems"(2) by blast
    then show ?thesis using True g by (subst batchLoop.simps) simp
  next
    case False
    then show ?thesis using "1.prems"(1) by (subst batchLoop.simps) simp
  qed
qed

lemma batchLoop_length:
  "length (fst (batchLoop settings rnd i (qs, k))) = length qs + nat (numQuestions settings - i)"
proof (induction settings rnd i "(qs, k)" arbitrary: qs k rule: batchLoop.induct)
  case (1 settings rnd i questions k)
  show ?case
  proof (cases "i < numQuestions settings")
    case True
    obtain q k' where g: "generateQuestion settings rnd k = (q, k')"
      by (cases "generateQuestion settings rnd k")
    have "length (fst (batchLoop settings rnd (i + 1) (questions @ [q], k'))) =
            length (questions @ [q]) + nat (numQuestions settings - (i + 1))"
      using "1.hyps" [OF True g [symmetric] refl] .
    then show ?thesis using True g by (subst batchLoop.simps) simp
  next
    case False
    then show ?thesis by (subst batchLoop.simps) simp
  qed
qed

lemma questionLoop_lengths:
  "length (g_numbers (questionLoop settings rnd i st)) =
     length (g_numbers st) + nat (numbersPerQuestion settings - i) \<and>
   length (g_operations (questionLoop settings rnd i st)) =
     length (g_operations st) + nat (numbersPerQuestion settings - i)"
proof (induction settings rnd i st rule: questionLoop.induct)
  case (1 settings rnd i st)
  show ?case
  proof (cases "i < numbersPerQuestion settings")
    case True
    then show ?thesis
      using "1.IH" [OF True]
      by (subst questionLoop.simps, subst (2) questionLoop.simps)
         (simp add: questionStep_unfold)
  next
    case False
    then show ?thesis
      by (subst questionLoop.simps, subst (2) questionLoop.simps) simp
  qed
qed

lemma generateQuestion_lengths:
  "length (numbers (fst (generateQuestion settings rnd k))) =
     Suc (nat (numbersPerQuestion settings - 1)) \<and>
   length (operations (fst (generateQuestion settings rnd k))) =
     nat (numbersPerQuestion settings - 1)"
  using questionLoop_lengths [of settings rnd 1 "initialGen settings rnd k"]
  by (simp add: generateQuestion_loop initialGen_def)

lemma generateQuestion_addition:
  assumes "operationMode settings = Addition"
  shows "\<forall>op \<in> set (operations (fst (generateQuestion settings rnd k))). op = ''+''"
  using sumInv_loop [OF assms, of rnd k] by (simp add: generateQuestion_loop sumInv_def)

lemma allowed_step:
  assumes "unitInterval rnd" and "\<forall>x \<in> set (g_numbers st). operandAllowed settings x"
  shows "\<forall>x \<in> set (g_numbers (questionStep settings rnd st)). operandAllowed settings x"
  using assms(2) generateNumber_allowed [OF assms(1), of settings "calls st"]
  by (simp add: questionStep_unfold)

lemma generateQuestion_allowed:
  assumes "unitInterval rnd"
  shows "\<forall>x \<in> set (numbers (fst (generateQuestion settings rnd k))). operandAllowed settings x"
proof -
  have "\<forall>x \<in> set (g_numbers (questionLoop settings rnd 1 (initialGen settings rnd k))).
          operandAllowed settings x"
  proof (rule questionLoop_invariant)
    show "\<forall>x \<in> set (g_numbers (initialGen settings rnd k)). operandAllowed settings x"
      using generateNumber_allowed [OF assms, of settings k] by (simp add: initialGen_def)
    show "\<forall>x \<in> set (g_numbers (questionStep settings rnd s)). operandAllowed settings x"
      if "\<forall>x \<in> set (g_numbers s). operandAllowed settings x" for s
      using assms that by (rule allowed_step)
  qed
  then show ?thesis by (simp add: generateQuestion_loop)
qed

subsection \<open>Concrete random sources\<close>

lemma unitInterval_thirds: "unitInterval thirds"
proof -
  have "isDouble (thirds k)" for k
    unfolding isDouble_def
    by (rule exI [of _ 6004799503160661], rule exI [of _ "- 54"]) code_simp
  moreover have "0 \<le> thirds k \<and> thirds k < 1" for k
    by code_simp
  ultimately show ?thesis by (simp add: unitInterval_def)
qed

lemma unitInterval_twoThirds: "unitInterval twoThirds"
proof -
  have "isDouble (twoThirds k)" for k
    unfolding isDouble_def
    by (rule exI [of _ 6004799503160661], rule exI [of _ "- 53"]) code_simp
  moreover have "0 \<le> twoThirds k \<and> twoThirds k < 1" for k
    by code_simp
  ultimately show ?thesis by (simp add: unitInterval_def)
qed

lemma unitInterval_fourNinths: "unitInterval fourNinths"
proof -
  have "isDouble (fourNinths k)" for k
    unfolding isDouble_def
    by (rule exI [of _ 2001599834386887], rule exI [of _ "- 52"]) code_simp
  moreover have "0 \<le> fourNinths k \<and> fourNinths k < 1" for k
    by code_simp
  ultimately show ?thesis by (simp add: unitInterval_def)
qed

section \<open>Claims about the generator\<close>

text \<open>
  Claim C1. For every question returned by \<^verbatim>\<open>generateQuestion\<close>, under any settings and
  at any point of a random source that keeps the contract of \<^verbatim>\<open>Math.random\<close>, every
  left-to-right prefix evaluation of its numbers and operations is at least 0, and so is
  the stored answer.
\<close>

theorem prefixes_nonnegative:
  assumes "unitInterval rnd"
  shows "(\<forall>j < length (numbers (fst (generateQuestion settings rnd k))).
            0 \<le> prefixValue (fst (generateQuestion settings rnd k)) j) \<and>
         0 \<le> answer (fst (generateQuestion settings rnd k))"
proof -
  have inv: "prefixesNonneg (questionLoop settings rnd 1 (initialGen settings rnd k))"
    by (rule questionLoop_invariant)
       (auto intro: prefixesNonneg_initial prefixesNonneg_step assms)
  show ?thesis
    using inv prefixesNonneg_total [OF inv]
    by (simp add: generateQuestion_loop prefixValue_def prefixesNonneg_def)
qed

theorem prefixes_nonnegative_witness:
  "unitInterval twoThirds \<and>
   fst (generateQuestion (defaultSettings\<lparr>numbersPerQuestion := 3\<rparr>) twoThirds 0) =
     \<lparr>numbers = [70, 70, 70], operations = [''+'', ''-''], answer = 70\<rparr> \<and>
   0 \<le> prefixValue (fst (generateQuestion (defaultSettings\<lparr>numbersPerQuestion := 3\<rparr>) twoThirds 0)) 0 \<and>
   0 \<le> prefixValue (fst (generateQuestion (defaultSettings\<lparr>numbersPerQuestion := 3\<rparr>) twoThirds 0)) 1 \<and>
   0 \<le> prefixValue (fst (generateQuestion (defaultSettings\<lparr>numbersPerQuestion := 3\<rparr>) twoThirds 0)) 2 \<and>
   0 \<le> answer (fst (generateQuestion (defaultSettings\<lparr>numbersPerQuestion := 3\<rparr>) twoThirds 0))"
proof -
  have q: "fst (generateQuestion (defaultSettings\<lparr>numbersPerQuestion := 3\<rparr>) twoThirds 0) =
     \<lparr>numbers = [70, 70, 70], operations = [''+'', ''-''], answer = 70\<rparr>"
    by code_simp
  show ?thesis
    using prefixes_nonnegative [OF unitInterval_twoThirds, of "defaultSettings\<lparr>numbersPerQuestion := 3\<rparr>" 0]
      unitInterval_twoThirds q
    by simp
qed

text \<open>
  Claim C2. For every question returned by \<^verbatim>\<open>generateQuestion\<close>, the stored answer is the
  left-to-right evaluation of its numbers under its operations; in the addition-only mode
  it is the sum of all operands.
\<close>

theorem answer_is_evaluation:
  "answer (fst (generateQuestion settings rnd k)) =
     evalLeftToRight (numbers (fst (generateQuestion settings rnd k)))
                     (operations (fst (generateQuestion settings rnd k))) \<and>
   (operationMode settings = Addition \<longrightarrow>
      answer (fst (generateQuestion settings rnd k)) =
        sum_list (numbers (fst (generateQuestion settings rnd k))))"
proof -
  have "wellFormed (initialGen settings rnd k)"
    by (simp add: wellFormed_def evalLeftToRight_single initialGen_def)
  from wellFormed_loop [OF this, of settings rnd 1] show ?thesis
    using sumInv_loop [of settings rnd k]
    by (simp add: generateQuestion_loop wellFormed_def sumInv_def)
qed

theorem answer_is_evaluation_witness:
  "operationMode (defaultSettings\<lparr>operationMode := Addition, numbersPerQuestion := 3\<rparr>) = Addition \<and>
   fst (generateQuestion (defaultSettings\<lparr>operationMode := Addition, numbersPerQuestion := 3\<rparr>)
          thirds 0) =
     \<lparr>numbers = [4, 4, 4], operations = [''+'', ''+''], answer = 12\<rparr> \<and>
   answer (fst (generateQuestion (defaultSettings\<lparr>operationMode := Addition, numbersPerQuestion := 3\<rparr>)
          thirds 0)) =
   sum_list (numbers (fst (generateQuestion (defaultSettings\<lparr>operationMode := Addition, numbersPerQuestion := 3\<rparr>)
          thirds 0)))"
proof -
  have q: "fst (generateQuestion (defaultSettings\<lparr>operationMode := Addition, numbersPerQuestion := 3\<rparr>)
          thirds 0) =
     \<lparr>numbers = [4, 4, 4], operations = [''+'', ''+''], answer = 12\<rparr>"
    by code_simp
  have m: "operationMode (defaultSettings\<lparr>operationMode := Addition, numbersPerQuestion := 3\<rparr>) = Addition"
    by simp
  show ?thesis
    using answer_is_evaluation [of "defaultSettings\<lparr>operationMode := Addition, numbersPerQuestion := 3\<rparr>" thirds 0] q m
    by simp
qed

text \<open>
  Claim C3. Every operand of every generated question lies in the inclusive range of one
  of the digit-size classes enabled in the settings used to generate it (1-digit: 1 to 9,
  2-digit: 10 to 99, 3-digit: 100 to 999); when no class is enabled the 1-digit class is
  substituted, so every operand lies between 1 and 9. This holds for a single call of
  \<^verbatim>\<open>generateQuestion\<close> and for every question of a batch.
\<close>

theorem operands_in_enabled_class:
  assumes "unitInterval rnd"
  shows "(\<forall>x \<in> set (numbers (fst (generateQuestion settings rnd k))). operandAllowed settings x) \<and>
         (\<not> hasDigitType settings \<longrightarrow>
            (\<forall>x \<in> set (numbers (fst (generateQuestion settings rnd k))). 1 \<le> x \<and> x \<le> 9)) \<and>
         (\<forall>q \<in> set (fst (batchLoop settings rnd 0 ([], k))).
            \<forall>x \<in> set (numbers q). operandAllowed settings x)"
proof (intro conjI)
  show "\<forall>x \<in> set (numbers (fst (generateQuestion settings rnd k))). operandAllowed settings x"
    using assms by (rule generateQuestion_allowed)
  then show "\<not> hasDigitType settings \<longrightarrow>
      (\<forall>x \<in> set (numbers (fst (generateQuestion settings rnd k))). 1 \<le> x \<and> x \<le> 9)"
    by (auto simp: operandAllowed_def hasDigitType_def)
  show "\<forall>q \<in> set (fst (batchLoop settings rnd 0 ([], k))).
          \<forall>x \<in> set (numbers q). operandAllowed settings x"
    by (rule batchLoop_invariant) (simp_all add: generateQuestion_allowed [OF assms])
qed

theorem operands_in_enabled_class_witness:
  "unitInterval twoThirds \<and>
   numbers (fst (generateQuestion (defaultSettings\<lparr>numbersPerQuestion := 3\<rparr>) twoThirds 0)) = [70, 70, 70] \<and>
   operandAllowed (defaultSettings\<lparr>numbersPerQuestion := 3\<rparr>) 70 \<and>
   unitInterval fourNinths \<and>
   numbers (fst (generateQuestion oneDigitSettings fourNinths 0)) = [5, 5, 5] \<and>
   operandAllowed oneDigitSettings 5 \<and>
   \<not> hasDigitType noDigitSettings \<and>
   numbers (fst (generateQuestion noDigitSettings twoThirds 0)) = [7, 7, 7, 7, 7, 7, 7, 7, 7, 7] \<and>
   operandAllowed noDigitSettings 7 \<and> (1::int) \<le> 7 \<and> (7::int) \<le> 9"
proof -
  have q: "numbers (fst (generateQuestion (defaultSettings\<lparr>numbersPerQuestion := 3\<rparr>) twoThirds 0)) = [70, 70, 70]"
    by code_simp
  have q1: "numbers (fst (generateQuestion oneDigitSettings fourNinths 0)) = [5, 5, 5]"
    by code_simp
  have q0: "numbers (fst (generateQuestion noDigitSettings twoThirds 0)) = [7, 7, 7, 7, 7, 7, 7, 7, 7, 7]"
    by code_simp
  have h: "\<not> hasDigitType noDigitSettings"
    by (simp add: hasDigitType_def noDigitSettings_def defaultSettings_def)
  show ?thesis
    using operands_in_enabled_class [OF unitInterval_twoThirds, of "defaultSettings\<lparr>numbersPerQuestion := 3\<rparr>" 0]
      operands_in_enabled_class [OF unitInterval_fourNinths, of oneDigitSettings 0]
      operands_in_enabled_class [OF unitInterval_twoThirds, of noDigitSettings 0]
      unitInterval_twoThirds unitInterval_fourNinths q q1 q0 h
    by simp
qed

text \<open>
  Claim C4. When the operations mode of the settings is addition-only, every operator of
  every generated question is \<open>+\<close>: for a single call of \<^verbatim>\<open>generateQuestion\<close> and for
  every question of the batch that \<^verbatim>\<open>startGame\<close> generates.
\<close>

theorem addition_only_operators:
  assumes "operationMode settings = Addition"
  shows "(\<forall>op \<in> set (operations (fst (generateQuestion settings rnd k))). op = ''+'') \<and>
         (\<forall>q \<in> set (fst (batchLoop settings rnd 0 ([], k))).
            \<forall>op \<in> set (operations q). op = ''+'')"
proof
  show "\<forall>op \<in> set (operations (fst (generateQuestion settings rnd k))). op = ''+''"
    using assms by (rule generateQuestion_addition)
  show "\<forall>q \<in> set (fst (batchLoop settings rnd 0 ([], k))). \<forall>op \<in> set (operations q). op = ''+''"
    by (rule batchLoop_invariant) (simp_all add: generateQuestion_addition [OF assms])
qed

theorem addition_only_operators_witness:
  "operationMode additionSettings = Addition \<and>
   fst (batchLoop additionSettings twoThirds 0 ([], 0)) =
     [\<lparr>numbers = [70, 70, 70], operations = [''+'', ''+''], answer = 210\<rparr>,
      \<lparr>numbers = [70, 70, 70], operations = [''+'', ''+''], answer = 210\<rparr>] \<and>
   operations (fst (generateQuestion additionSettings twoThirds 0)) = [''+'', ''+'']"
proof -
  have m: "operationMode additionSettings = Addition"
    by (simp add: additionSettings_def)
  have b: "fst (batchLoop additionSettings twoThirds 0 ([], 0)) =
     [\<lparr>numbers = [70, 70, 70], operations = [''+'', ''+''], answer = 210\<rparr>,
      \<lparr>numbers = [70, 70, 70], operations = [''+'', ''+''], answer = 210\<rparr>]"
    by code_simp
  have q: "operations (fst (generateQuestion additionSettings twoThirds 0)) = [''+'', ''+'']"
    by code_simp
  show ?thesis
    using addition_only_operators [OF m, of twoThirds 0] m b q by simp
qed

text \<open>
  Claim C5. Generating a batch with \<^verbatim>\<open>numQuestions\<close> = P produces exactly P questions, and
  for \<^verbatim>\<open>numbersPerQuestion\<close> = N with N at least 2 each question has exactly N numbers
  and exactly N - 1 operations. This holds for the loop that fills the batch, and for the
  batch that \<^verbatim>\<open>startGame\<close> stores in \<^verbatim>\<open>allQuestions\<close>: with settings that pass its checks
  \<^verbatim>\<open>startGame\<close> starts the game, and the questions it stores are P questions of N numbers
  and N - 1 operations each.
\<close>

theorem batch_size:
  "(0 \<le> numQuestions settings \<longrightarrow>
      int (length (fst (batchLoop settings rnd 0 ([], k)))) = numQuestions settings) \<and>
   (2 \<le> numbersPerQuestion settings \<longrightarrow>
      (\<forall>q \<in> set (fst (batchLoop settings rnd 0 ([], k))).
         int (length (numbers q)) = numbersPerQuestion settings \<and>
         int (length (operations q)) = numbersPerQuestion settings - 1)) \<and>
   (hasDigitType settings \<and> 2 \<le> numbersPerQuestion settings \<and> 1 \<le> numQuestions settings \<longrightarrow>
      (\<exists>g' timeout sounds k'.
         startGame settings rnd k g = Inr (g', timeout, sounds, k') \<and>
         timeout = StartGetReady (allQuestions g') \<and>
         int (length (allQuestions g')) = numQuestions settings \<and>
         (\<forall>q \<in> set (allQuestions g').
            int (length (numbers q)) = numbersPerQuestion settings \<and>
            int (length (operations q)) = numbersPerQuestion settings - 1)))"
proof (intro conjI impI)
  assume "0 \<le> numQuestions settings"
  then show "int (length (fst (batchLoop settings rnd 0 ([], k)))) = numQuestions settings"
    by (simp add: batchLoop_length)
next
  assume n: "2 \<le> numbersPerQuestion settings"
  show "\<forall>q \<in> set (fst (batchLoop settings rnd 0 ([], k))).
          int (length (numbers q)) = numbersPerQuestion settings \<and>
          int (length (operations q)) = numbersPerQuestion settings - 1"
    by (rule batchLoop_invariant) (use n in \<open>simp_all add: generateQuestion_lengths\<close>)
next
  assume valid: "hasDigitType settings \<and> 2 \<le> numbersPerQuestion settings \<and>
                 1 \<le> numQuestions settings"
  obtain qs k' where b: "batchLoop settings rnd 0 ([], k) = (qs, k')"
    by (cases "batchLoop settings rnd 0 ([], k)")
  let ?g = "g\<lparr> allQuestions := qs, currentQuestion := 0, nextQuestionNumber := 1,
                currentNumberIndex := 0, calculatingAnswer := False,
                showingAnswer := False, showingGetReady := True,
                flashingBetweenNumbers := False, isPaused := False,
                gameState := Playing \<rparr>"
  have start: "startGame settings rnd k g = Inr (?g, StartGetReady qs, [SndGameStart], k')"
    using valid b by (simp add: startGame_def)
  have len: "int (length qs) = numQuestions settings"
    using valid batchLoop_length [of settings rnd 0 "[]" k] b by simp
  have each: "\<forall>q \<in> set qs. int (length (numbers q)) = numbersPerQuestion settings \<and>
                int (length (operations q)) = numbersPerQuestion settings - 1"
  proof -
    have "\<forall>q \<in> set (fst (batchLoop settings rnd 0 ([], k))).
            int (length (numbers q)) = numbersPerQuestion settings \<and>
            int (length (operations q)) = numbersPerQuestion settings - 1"
      by (rule batchLoop_invariant) (use valid in \<open>simp_all add: generateQuestion_lengths\<close>)
    then show ?thesis by (simp add: b)
  qed
  show "\<exists>g' timeout sounds k'.
         startGame settings rnd k g = Inr (g', timeout, sounds, k') \<and>
         timeout = StartGetReady (allQuestions g') \<and>
         int (length (allQuestions g')) = numQuestions settings \<and>
         (\<forall>q \<in> set (allQuestions g').
            int (length (numbers q)) = numbersPerQuestion settings \<and>
            int (length (operations q)) = numbersPerQuestion settings - 1)"
    using start len each
    by (intro exI [of _ ?g] exI [of _ "StartGetReady qs"] exI [of _ "[SndGameStart]"]
          exI [of _ k']) simp
qed

theorem batch_size_witness:
  "(0::int) \<le> numQuestions additionSettings \<and> (2::int) \<le> numbersPerQuestion additionSettings \<and>
   hasDigitType additionSettings \<and> (1::int) \<le> numQuestions additionSettings \<and>
   numQuestions additionSettings = 2 \<and> numbersPerQuestion additionSettings = 3 \<and>
   fst (batchLoop additionSettings twoThirds 0 ([], 0)) =
     [\<lparr>numbers = [70, 70, 70], operations = [''+'', ''+''], answer = 210\<rparr>,
      \<lparr>numbers = [70, 70, 70], operations = [''+'', ''+''], answer = 210\<rparr>] \<and>
   int (length (fst (batchLoop additionSettings twoThirds 0 ([], 0)))) = 2 \<and>
   startGame additionSettings twoThirds 0 initialGame =
     Inr (initialGame\<lparr> allQuestions :=
            [\<lparr>numbers = [70, 70, 70], operations = [''+'', ''+''], answer = 210\<rparr>,
             \<lparr>numbers = [70, 70, 70], operations = [''+'', ''+''], answer = 210\<rparr>],
            showingGetReady := True, gameState := Playing \<rparr>,
          StartGetReady
            [\<lparr>numbers = [70, 70, 70], operations = [''+'', ''+''], answer = 210\<rparr>,
             \<lparr>numbers = [70, 70, 70], operations = [''+'', ''+''], answer = 210\<rparr>],
          [SndGameStart], 12)"
proof -
  have s: "numQuestions additionSettings = 2" "numbersPerQuestion additionSettings = 3"
    "hasDigitType additionSettings"
    by (simp_all add: additionSettings_def defaultSettings_def hasDigitType_def)
  have b: "fst (batchLoop additionSettings twoThirds 0 ([], 0)) =
     [\<lparr>numbers = [70, 70, 70], operations = [''+'', ''+''], answer = 210\<rparr>,
      \<lparr>numbers = [70, 70, 70], operations = [''+'', ''+''], answer = 210\<rparr>]"
    by code_simp
  have g: "startGame additionSettings twoThirds 0 initialGame =
     Inr (initialGame\<lparr> allQuestions :=
            [\<lparr>numbers = [70, 70, 70], operations = [''+'', ''+''], answer = 210\<rparr>,
             \<lparr>numbers = [70, 70, 70], operations = [''+'', ''+''], answer = 210\<rparr>],
            showingGetReady := True, gameState := Playing \<rparr>,
          StartGetReady
            [\<lparr>numbers = [70, 70, 70], operations = [''+'', ''+''], answer = 210\<rparr>,
             \<lparr>numbers = [70, 70, 70], operations = [''+'', ''+''], answer = 210\<rparr>],
          [SndGameStart], 12)"
    by code_simp
  show ?thesis
    using batch_size [of additionSettings twoThirds 0 initialGame] s b g by simp
qed

text \<open>
  Claim C9. The level setting has no effect on number generation: two settings that
  differ only in \<^verbatim>\<open>level\<close>, run against the same random outcomes, give the same result of
  \<^verbatim>\<open>generateNumber\<close> and the same operands, operators and answer of \<^verbatim>\<open>generateQuestion\<close>.
\<close>

theorem level_has_no_effect:
  "generateNumber (settings\<lparr>level := l\<rparr>) rnd k = generateNumber settings rnd k \<and>
   generateQuestion (settings\<lparr>level := l\<rparr>) rnd k = generateQuestion settings rnd k"
  by (simp add: generateQuestion_def generateNumber_level questionLoop_level)

text \<open>
  Claim C10. In \<^verbatim>\<open>generateQuestion\<close> the subtraction guard never fires: for the operator
  that the loop body has just chosen, whatever the running total, the candidate and the
  random outcome, the condition \<^verbatim>\<open>op === '-' && runningTotal - nextNumber < 0\<close> is false,
  so the repair leaves the candidate and the operator as they are and draws no random
  number.
\<close>

theorem repair_unreachable:
  "\<not> guardFires (fst (chooseOp settings rnd rt n k)) rt n \<and>
   repair rnd (fst (chooseOp settings rnd rt n k)) rt n k' =
     (n, fst (chooseOp settings rnd rt n k), k')"
  by (simp add: guard_never_fires repair_identity)

section \<open>Properties of the sequencer\<close>

subsection \<open>The effect and the callbacks\<close>




subsection \<open>Sounds and rendering keep the timers consistent\<close>

lemma withSounds_frame:
  "game (withSounds sounds s) = game s \<and> timeouts (withSounds sounds s) = timeouts s \<and>
   effectTimer (withSounds sounds s) = effectTimer s \<and>
   currentSettings (withSounds sounds s) = currentSettings s \<and>
   randomCalls (withSounds sounds s) = randomCalls s \<and>
   audioRunning (withSounds sounds s) = audioRunning s"
  by (simp add: withSounds_def)

lemma withSounds_silent:
  "withSounds [SndButtonClick] s = s" "withSounds [SndSettingChange] s = s"
  "withSounds [SndPause] s = s" "withSounds [SndGetReady] s = s"
  by (simp_all add: withSounds_def playSound_def)

lemma rerender_frame:
  "game (rerender p s) = game s \<and> timeouts (rerender p s) = timeouts s \<and>
   currentSettings (rerender p s) = currentSettings s \<and> randomCalls (rerender p s) = randomCalls s \<and>
   soundTimeouts (rerender p s) = soundTimeouts s \<and> audioRunning (rerender p s) = audioRunning s"
  by (simp add: rerender_def)





subsection \<open>Every event keeps the timers consistent\<close>











subsection \<open>After a restart\<close>




subsection \<open>Pause followed by resume\<close>

lemma resume_pause_game:
  "resumeGame (pauseGame g) = g\<lparr> isPaused := False, gameState := Playing \<rparr>"
  by (simp add: resumeGame_def pauseGame_def)

lemma resume_pause_identity:
  "gameState g = Playing \<Longrightarrow> \<not> isPaused g \<Longrightarrow> resumeGame (pauseGame g) = g"
  by (simp add: resume_pause_game)

lemma resume_pause_system:
  assumes "pauseAvailable (game s)" "\<not> isPaused (game s)"
  shows "game (step rnd ClickResume (step rnd ClickPause s)) = game s \<and>
         timeouts (step rnd ClickResume (step rnd ClickPause s)) = timeouts s \<and>
         effectTimer (step rnd ClickResume (step rnd ClickPause s)) = gameEffect (game s)"
proof -
  let ?p = "invokePause s"
  have p: "game ?p = pauseGame (game s)" "timeouts ?p = timeouts s"
    by (simp_all add: invokePause_def rerender_frame withSounds_frame)
  have av: "resumeAvailable (game ?p)" by (simp add: p resumeAvailable_def pauseGame_def)
  have restored: "resumeGame (pauseGame (game s)) = game s"
    using assms by (intro resume_pause_identity) (simp_all add: pauseAvailable_def)
  have deps: "effectDeps (game s) \<noteq> effectDeps (game ?p)"
    using assms(1) by (simp add: p effectDeps_def pauseGame_def pauseAvailable_def)
  have "game (invokeResume ?p) = game s \<and> timeouts (invokeResume ?p) = timeouts s \<and>
        effectTimer (invokeResume ?p) = gameEffect (game s)"
    using deps by (simp add: invokeResume_def rerender_def withSounds_frame p restored)
  then show ?thesis using assms(1) av by (simp add: withSounds_silent)
qed

subsection \<open>A concrete state of a game\<close>

lemma showingFirstNumber_value:
  "showingFirstNumber =
     \<lparr> currentSettings = smallSettings,
       game = initialGame\<lparr> gameState := Playing, currentNumbers := [70, 70],
                currentOperations := [''+''], currentAnswer := 140,
                allQuestions := [\<lparr>numbers = [70, 70], operations = [''+''], answer = 140\<rparr>,
                                 \<lparr>numbers = [70, 70], operations = [''+''], answer = 140\<rparr>],
                displayNumber := ''70'' \<rparr>,
       effectTimer = Some (NumberDwell 0 [70, 70]), timeouts = [],
       soundTimeouts = [Note ''E4'' ''0.2'', Note ''G4'' ''0.2'', Note ''C5'' ''0.4''],
       randomCalls = 8, audioRunning = True \<rparr>"
  by code_simp

lemmas run_sequencer =
  showingFirstNumber_value initialGame_def restartAvailable_def pauseAvailable_def
  resumeAvailable_def invokeRestart_def invokePause_def invokeResume_def rerender_def
  effectDeps_def gameEffect_def restartGame_def pauseGame_def resumeGame_def withSounds_def
  playSound_def at_index_def fireSoundTimeout_def fireEffectTimer_def fireTimeout_def

section \<open>Claims about the sequencer\<close>



text \<open>
  Claim C7, as amended. Starting a game with no digit-size class enabled is rejected:
  \<^verbatim>\<open>startGame\<close> shows the message \<^verbatim>\<open>Please select at least one number type!\<close> and returns;
  no question is generated, no timeout is scheduled and the state stays as it is.
\<close>

theorem start_rejected_without_digit_type:
  assumes "\<not> hasDigitType settings"
  shows "startGame settings rnd k g = Inl ''Please select at least one number type!'' \<and>
         invokeStart rnd (s\<lparr> currentSettings := settings \<rparr>) = s\<lparr> currentSettings := settings \<rparr>"
  using assms by (simp add: startGame_def invokeStart_def)

theorem start_rejected_without_digit_type_witness:
  "\<not> hasDigitType noDigitSettings \<and>
   startGame noDigitSettings thirds 0 initialGame =
     Inl ''Please select at least one number type!'' \<and>
   invokeStart thirds (initialSystem noDigitSettings) = initialSystem noDigitSettings"
proof -
  have h: "\<not> hasDigitType noDigitSettings"
    by (simp add: hasDigitType_def noDigitSettings_def defaultSettings_def)
  have i: "(initialSystem noDigitSettings)\<lparr> currentSettings := noDigitSettings \<rparr> =
           initialSystem noDigitSettings"
    by (simp add: initialSystem_def)
  show ?thesis
    using start_rejected_without_digit_type [OF h, of thirds 0 initialGame "initialSystem noDigitSettings"] h i
    by simp
qed

text \<open>
  The claim as stated fails: with the default settings and every digit-size class
  switched off, \<^verbatim>\<open>startGame\<close> returns the alert and a click on Start changes nothing.
\<close>

theorem start_without_digit_type_shows_alert:
  "startGame noDigitSettings twoThirds 0 initialGame =
     Inl ''Please select at least one number type!'' \<and>
   step twoThirds ClickStart (initialSystem noDigitSettings) = initialSystem noDigitSettings"
  by (simp add: startGame_def hasDigitType_def noDigitSettings_def defaultSettings_def
      invokeStart_def initialSystem_def startAvailable_def initialGame_def
      withSounds_def playSound_def)

text \<open>
  Claim C8. \<^verbatim>\<open>pauseGame\<close> followed by \<^verbatim>\<open>resumeGame\<close>, with no timer callback in between,
  changes nothing but \<^verbatim>\<open>isPaused\<close> and \<^verbatim>\<open>gameState\<close>: the current question, the number
  index, the four phase flags, the questions, the displayed value and the answer are as
  before, and from a playing, unpaused state the whole state is restored. On the running
  component, a click on Pause where it is offered followed by a click on Resume gives
  back the same state and pending timeouts, with the timer of the current phase armed
  again.
\<close>

theorem pause_resume_restores:
  "resumeGame (pauseGame g) = g\<lparr> isPaused := False, gameState := Playing \<rparr> \<and>
   (gameState g = Playing \<and> \<not> isPaused g \<longrightarrow> resumeGame (pauseGame g) = g) \<and>
   (pauseAvailable (game s) \<and> \<not> isPaused (game s) \<longrightarrow>
      game (step rnd ClickResume (step rnd ClickPause s)) = game s \<and>
      timeouts (step rnd ClickResume (step rnd ClickPause s)) = timeouts s \<and>
      effectTimer (step rnd ClickResume (step rnd ClickPause s)) = gameEffect (game s))"
  using resume_pause_game [of g] resume_pause_identity [of g] resume_pause_system [of s rnd]
  by blast

theorem pause_resume_restores_witness:
  "gameState (game showingFirstNumber) = Playing \<and> \<not> isPaused (game showingFirstNumber) \<and>
   pauseAvailable (game showingFirstNumber) \<and>
   gameState (pauseGame (game showingFirstNumber)) = Paused \<and>
   resumeGame (pauseGame (game showingFirstNumber)) = game showingFirstNumber \<and>
   game (step twoThirds ClickResume (step twoThirds ClickPause showingFirstNumber)) =
     game showingFirstNumber \<and>
   effectTimer (step twoThirds ClickResume (step twoThirds ClickPause showingFirstNumber)) =
     Some (NumberDwell 0 [70, 70])"
proof -
  have a: "gameState (game showingFirstNumber) = Playing" "\<not> isPaused (game showingFirstNumber)"
    "pauseAvailable (game showingFirstNumber)"
    by (simp_all add: run_sequencer)
  have b: "gameState (pauseGame (game showingFirstNumber)) = Paused"
    by (simp add: pauseGame_def)
  have e: "gameEffect (game showingFirstNumber) = Some (NumberDwell 0 [70, 70])"
    by (simp add: run_sequencer)
  show ?thesis
    using pause_resume_restores [of "game showingFirstNumber" showingFirstNumber twoThirds] a b e
    by simp
qed

end
